theory Spec2Isabelle
  imports Main "HOL-Library.Sublist"
begin

section \<open>Python values the Jira manager works on\<close>

text \<open>
  The program is one Python class, \<^verbatim>\<open>JiraManager\<close>, in \<^verbatim>\<open>src/jira_manager.py\<close>.
  Strings are modelled as \<^typ>\<open>string\<close> restricted to ASCII: \<^verbatim>\<open>str.lower\<close>,
  \<^verbatim>\<open>str.strip\<close> and the substring test \<^verbatim>\<open>a in b\<close> are the ASCII ones.
  Printing to the terminal is not modelled.
\<close>

subsection \<open>String operations\<close>

definition lower_char :: "char \<Rightarrow> char" where
  "lower_char c =
     (if (65::nat) \<le> of_char c \<and> of_char c \<le> (90::nat)
      then char_of (of_char c + (32::nat)) else c)"

definition lower :: "string \<Rightarrow> string" where
  "lower s = map lower_char s"

definition startswith :: "string \<Rightarrow> string \<Rightarrow> bool" where
  "startswith s p = (take (length p) s = p)"

definition endswith :: "string \<Rightarrow> string \<Rightarrow> bool" where
  "endswith s p = (length p \<le> length s \<and> drop (length s - length p) s = p)"

text \<open>\<^verbatim>\<open>needle in hay\<close> on strings: \<^verbatim>\<open>needle\<close> occurs as a contiguous piece.\<close>

fun py_in :: "string \<Rightarrow> string \<Rightarrow> bool" where
  "py_in needle [] = (needle = [])"
| "py_in needle (c # cs) = (startswith (c # cs) needle \<or> py_in needle cs)"

text \<open>\<^verbatim>\<open>sep.join(parts)\<close>.\<close>

fun join :: "string \<Rightarrow> string list \<Rightarrow> string" where
  "join sep [] = []"
| "join sep [x] = x"
| "join sep (x # y # ys) = x @ sep @ join sep (y # ys)"

text \<open>ASCII white space, as \<^verbatim>\<open>str.strip\<close> and the pattern \<^verbatim>\<open>\s\<close> see it.\<close>

definition isspace :: "char \<Rightarrow> bool" where
  "isspace c = (let n = (of_char c :: nat) in n = 32 \<or> (9 \<le> n \<and> n \<le> 13) \<or> (28 \<le> n \<and> n \<le> 31))"


text \<open>\<^verbatim>\<open>s.replace(c, new)\<close> for a one-character \<^verbatim>\<open>c\<close>: every occurrence is replaced.\<close>

definition replace_char :: "char \<Rightarrow> string \<Rightarrow> string \<Rightarrow> string" where
  "replace_char c new s = concat (map (\<lambda>x. if x = c then new else [x]) s)"

section \<open>The impact scorer\<close>

text \<open>
  \<^verbatim>\<open>_assess_business_impact(issue_type, priority, labels, description)\<close>, lines 501 to 540.
  The local variable \<^verbatim>\<open>impact_score\<close> is accumulated in three steps; the keyword scan is
  a \<^verbatim>\<open>for\<close> loop left by \<^verbatim>\<open>break\<close> at the first keyword found.
\<close>

definition priority_points :: "string \<Rightarrow> int" where
  "priority_points priority =
     (let priority_lower = lower priority in
      if py_in ''critical'' priority_lower \<or> py_in ''highest'' priority_lower then 4
      else if py_in ''high'' priority_lower then 3
      else if py_in ''medium'' priority_lower then 2
      else 1)"

definition type_points :: "string \<Rightarrow> int" where
  "type_points issue_type =
     (let type_lower = lower issue_type in
      if py_in ''bug'' type_lower \<and> (py_in ''critical'' type_lower \<or> py_in ''blocker'' type_lower) then 2
      else if py_in ''security'' type_lower then 2
      else if py_in ''feature'' type_lower \<or> py_in ''epic'' type_lower then 1
      else 0)"

definition high_impact_keywords :: "string list" where
  "high_impact_keywords =
     [''outage'', ''down'', ''critical'', ''security'', ''data loss'', ''customer impact'', ''revenue'']"

text \<open>The loop over the keywords: the score grows by one at the first hit, and the loop ends there.\<close>

fun keyword_scan :: "string list \<Rightarrow> string \<Rightarrow> int \<Rightarrow> int" where
  "keyword_scan [] text_to_check impact_score = impact_score"
| "keyword_scan (keyword # rest) text_to_check impact_score =
     (if py_in keyword text_to_check then impact_score + 1
      else keyword_scan rest text_to_check impact_score)"

definition impact_score :: "string \<Rightarrow> string \<Rightarrow> string list \<Rightarrow> string \<Rightarrow> int" where
  "impact_score issue_type priority labels description =
     (let s0 = 0;
          s1 = s0 + priority_points priority;
          s2 = s1 + type_points issue_type;
          text_to_check = lower (join '' '' (labels @ [description]))
      in keyword_scan high_impact_keywords text_to_check s2)"

text \<open>The three messages returned; each starts with a coloured circle, given here by its UTF-8 bytes.\<close>

definition HIGH :: string where
  "HIGH = [CHR 0xF0, CHR 0x9F, CHR 0x94, CHR 0xB4] @
     '' **HIGH** - Critical business impact requiring immediate attention''"

definition MEDIUM :: string where
  "MEDIUM = [CHR 0xF0, CHR 0x9F, CHR 0x9F, CHR 0xA1] @
     '' **MEDIUM** - Moderate business impact, should be prioritized''"

definition LOW :: string where
  "LOW = [CHR 0xF0, CHR 0x9F, CHR 0x9F, CHR 0xA2] @
     '' **LOW** - Minimal business impact, can be addressed in normal workflow''"

definition assess_business_impact :: "string \<Rightarrow> string \<Rightarrow> string list \<Rightarrow> string \<Rightarrow> string" where
  "assess_business_impact issue_type priority labels description =
     (let score = impact_score issue_type priority labels description in
      if score \<ge> 6 then HIGH else if score \<ge> 4 then MEDIUM else LOW)"

section \<open>JSON values, exceptions and the HTTP session\<close>

text \<open>
  What \<^verbatim>\<open>response.json()\<close> returns: dictionaries keep their items as an association
  list, \<^verbatim>\<open>None\<close> is \<open>JNull\<close>. Numbers are the integers.
\<close>

datatype json =
    JNull
  | JBool bool
  | JNum int
  | JStr string
  | JArr "json list"
  | JObj "(string \<times> json) list"

text \<open>
  The exceptions that can occur. \<open>RequestException\<close> stands for every error raised by
  \<^verbatim>\<open>session.get\<close> (connection errors and timeouts included). \<open>JSONDecodeError\<close> is what
  \<^verbatim>\<open>response.json()\<close> raises on a body that is not JSON: the class
  \<^verbatim>\<open>requests.exceptions.JSONDecodeError\<close> (requests 2.27 and later), which derives from
  both \<^verbatim>\<open>requests.RequestException\<close> and \<^verbatim>\<open>json.JSONDecodeError\<close>, so either
  \<^verbatim>\<open>except\<close> clause catches it.
\<close>

datatype exn = RequestException | JSONDecodeError | AttributeError | TypeError | KeyError

definition is_RequestException :: "exn \<Rightarrow> bool" where
  "is_RequestException e = (e = RequestException \<or> e = JSONDecodeError)"

definition is_JSONDecodeError :: "exn \<Rightarrow> bool" where
  "is_JSONDecodeError e = (e = JSONDecodeError)"

text \<open>Sequencing of statements that may raise.\<close>

definition and_then :: "exn + 'a \<Rightarrow> ('a \<Rightarrow> exn + 'b) \<Rightarrow> exn + 'b" where
  "and_then m f = (case m of Inl e \<Rightarrow> Inl e | Inr x \<Rightarrow> f x)"

text \<open>Truth value of an object in a condition (\<^verbatim>\<open>if x:\<close>, \<^verbatim>\<open>not x\<close>).\<close>

fun truthy :: "json \<Rightarrow> bool" where
  "truthy JNull = False"
| "truthy (JBool b) = b"
| "truthy (JNum n) = (n \<noteq> 0)"
| "truthy (JStr s) = (s \<noteq> [])"
| "truthy (JArr xs) = (xs \<noteq> [])"
| "truthy (JObj kvs) = (kvs \<noteq> [])"

text \<open>\<^verbatim>\<open>d.get(k, default)\<close>: only a dictionary has the method.\<close>

fun dict_get :: "json \<Rightarrow> string \<Rightarrow> json \<Rightarrow> exn + json" where
  "dict_get (JObj kvs) k d = Inr (case map_of kvs k of None \<Rightarrow> d | Some v \<Rightarrow> v)"
| "dict_get _ k d = Inl AttributeError"

text \<open>\<^verbatim>\<open>len(x)\<close>, \<^verbatim>\<open>for v in x\<close>, \<^verbatim>\<open>x.append(v)\<close> and \<^verbatim>\<open>x.lower()\<close>.\<close>

fun py_len :: "json \<Rightarrow> exn + nat" where
  "py_len (JStr s) = Inr (length s)"
| "py_len (JArr xs) = Inr (length xs)"
| "py_len (JObj kvs) = Inr (length kvs)"
| "py_len _ = Inl TypeError"

fun py_iter :: "json \<Rightarrow> exn + json list" where
  "py_iter (JArr xs) = Inr xs"
| "py_iter (JStr s) = Inr (map (\<lambda>c. JStr [c]) s)"
| "py_iter (JObj kvs) = Inr (map (\<lambda>kv. JStr (fst kv)) kvs)"
| "py_iter _ = Inl TypeError"

fun py_append :: "json \<Rightarrow> json \<Rightarrow> exn + json" where
  "py_append (JArr xs) v = Inr (JArr (xs @ [v]))"
| "py_append _ v = Inl AttributeError"

fun py_lower :: "json \<Rightarrow> exn + string" where
  "py_lower (JStr s) = Inr (lower s)"
| "py_lower _ = Inl AttributeError"

text \<open>
  A response: its status, its body and what \<^verbatim>\<open>response.json()\<close> makes of the body
  (\<open>None\<close> when the body is not JSON). The server gives, for the URL requested, the
  response, or \<open>None\<close> when \<^verbatim>\<open>session.get\<close> raises a \<^verbatim>\<open>RequestException\<close>. Query
  parameters are not part of the model: within one operation no URL is requested twice, so
  the server is a function of the URL.
\<close>

record response =
  status_code :: int
  resp_text :: string
  resp_json :: "json option"

type_synonym server = "string \<Rightarrow> response option"

definition response_json :: "response \<Rightarrow> exn + json" where
  "response_json r = (case resp_json r of None \<Rightarrow> Inl JSONDecodeError | Some j \<Rightarrow> Inr j)"

text \<open>A selected project, as \<^verbatim>\<open>select_projects\<close> stores it: \<^verbatim>\<open>{'key': ..., 'name': ...}\<close>.\<close>

record project =
  key :: string
  name :: string

text \<open>The fields of \<^verbatim>\<open>self\<close> that the operations below read or write.\<close>

record jira =
  base_url :: string
  api_version :: "string option"
  selected_projects :: "project list"

section \<open>The version negotiator\<close>








text \<open>
  \<^verbatim>\<open>get_project_issues\<close>, lines 897 to 919. The project key only enters the query
  parameters. An exception that is not a \<^verbatim>\<open>RequestException\<close> leaves the method.
\<close>

definition issues_result :: "response \<Rightarrow> exn + json" where
  "issues_result r =
     (if status_code r = 200 then
        (case and_then (response_json r) (\<lambda>j. dict_get j ''issues'' (JArr [])) of
           Inl e \<Rightarrow> (if is_RequestException e then Inr (JArr []) else Inl e)
         | Inr issues \<Rightarrow> Inr issues)
      else Inr (JArr []))"

definition get_project_issues :: "jira \<Rightarrow> server \<Rightarrow> json \<Rightarrow> (exn + json) \<times> string list" where
  "get_project_issues self srv project_key =
     (let v3 = base_url self @ ''/rest/api/3/search'' in
      case srv v3 of
        None \<Rightarrow> (Inr (JArr []), [v3])
      | Some response \<Rightarrow>
          if status_code response = 404 then
            (let v2 = base_url self @ ''/rest/api/2/search'' in
             case srv v2 of
               None \<Rightarrow> (Inr (JArr []), [v3, v2])
             | Some response2 \<Rightarrow> (issues_result response2, [v3, v2]))
          else (issues_result response, [v3]))"

section \<open>Board discovery\<close>

text \<open>
  \<^verbatim>\<open>_extract_project_from_filter\<close>, lines 381 to 391. The pattern
  \<^verbatim>\<open>project\s*(?:=|in)\s*(?:\()?['"]*([A-Z][A-Z0-9]*)\<close> is searched ignoring case; no
  two neighbouring pieces of it can match the same character, so the leftmost match is found
  by reading each piece greedily. \<open>match_project\<close> matches at the start of the string and
  gives group 1.
\<close>

definition is_alpha :: "char \<Rightarrow> bool" where
  "is_alpha c = (let n = (of_char c :: nat) in (65 \<le> n \<and> n \<le> 90) \<or> (97 \<le> n \<and> n \<le> 122))"

definition is_alnum :: "char \<Rightarrow> bool" where
  "is_alnum c = (is_alpha c \<or> (let n = (of_char c :: nat) in 48 \<le> n \<and> n \<le> 57))"

definition is_quote :: "char \<Rightarrow> bool" where
  "is_quote c = (c = CHR 0x27 \<or> c = CHR 0x22)"

definition match_project :: "string \<Rightarrow> string option" where
  "match_project s =
     (if lower (take 7 s) = ''project'' then
        (let s1 = dropWhile isspace (drop 7 s);
             s2 = (if startswith s1 ''='' then Some (drop 1 s1)
                   else if lower (take 2 s1) = ''in'' then Some (drop 2 s1)
                   else None)
         in case s2 of
              None \<Rightarrow> None
            | Some s2 \<Rightarrow>
                (let s3 = dropWhile isspace s2;
                     s4 = (if startswith s3 ''('' then drop 1 s3 else s3);
                     s5 = dropWhile is_quote s4
                 in case s5 of
                      [] \<Rightarrow> None
                    | c # cs \<Rightarrow> if is_alpha c then Some (c # takeWhile is_alnum cs) else None))
      else None)"

fun search_project :: "string \<Rightarrow> string option" where
  "search_project [] = None"
| "search_project (c # cs) =
     (case match_project (c # cs) of Some k \<Rightarrow> Some k | None \<Rightarrow> search_project cs)"

definition extract_project_from_filter :: "json \<Rightarrow> exn + json" where
  "extract_project_from_filter filter_query =
     (if \<not> truthy filter_query then Inr (JStr ''N/A'')
      else case filter_query of
             JStr s \<Rightarrow> (case search_project s of Some k \<Rightarrow> Inr (JStr k) | None \<Rightarrow> Inr (JStr ''N/A''))
           | _ \<Rightarrow> Inl TypeError)"

text \<open>
  The board built from a rapid view, lines 345 to 352 (and again lines 554 to 561 for one
  view).
\<close>

definition view_to_board :: "json \<Rightarrow> exn + json" where
  "view_to_board view =
     and_then (dict_get view ''id'' JNull) (\<lambda>vid.
     and_then (dict_get view ''name'' JNull) (\<lambda>vname.
     and_then (dict_get view ''sprintSupportEnabled'' (JBool False)) (\<lambda>sprint.
     and_then (dict_get view ''filter'' (JObj [])) (\<lambda>flt.
     and_then (dict_get flt ''query'' (JStr [])) (\<lambda>query.
     and_then (extract_project_from_filter query) (\<lambda>project_key.
       Inr (JObj [(''id'', vid), (''name'', vname),
                  (''type'', JStr (if truthy sprint then ''scrum'' else ''kanban'')),
                  (''location'', JObj [(''projectKey'', project_key)])])))))))"

text \<open>The loop of lines 344 to 353: each view's board is appended to \<^verbatim>\<open>boards\<close>.\<close>

fun append_views :: "json list \<Rightarrow> json \<Rightarrow> exn + json" where
  "append_views [] boards = Inr boards"
| "append_views (view # views) boards =
     and_then (view_to_board view) (\<lambda>board.
     and_then (py_append boards board) (append_views views))"

text \<open>
  Method 1 of \<^verbatim>\<open>get_boards\<close>, lines 305 to 329: the value of \<^verbatim>\<open>boards\<close> after it. The
  method returns from inside when that value is true.
\<close>

definition agile_boards :: "jira \<Rightarrow> server \<Rightarrow> exn + json" where
  "agile_boards self srv =
     (case srv (base_url self @ ''/rest/agile/1.0/board'') of
        None \<Rightarrow> Inr (JArr [])
      | Some response \<Rightarrow>
          if status_code response = 200 then
            (case response_json response of
               Inl e \<Rightarrow> (if is_JSONDecodeError e then Inr (JArr []) else Inl e)
             | Inr data \<Rightarrow>
                 and_then (dict_get data ''values'' (JArr [])) (\<lambda>boards.
                 and_then (py_len boards) (\<lambda>_. Inr boards)))
          else Inr (JArr []))"

text \<open>Method 2, lines 331 to 362: the value of \<^verbatim>\<open>boards\<close> after it.\<close>

definition greenhopper_boards :: "jira \<Rightarrow> server \<Rightarrow> json \<Rightarrow> exn + json" where
  "greenhopper_boards self srv boards =
     (case srv (base_url self @ ''/rest/greenhopper/1.0/rapidview'') of
        None \<Rightarrow> Inr boards
      | Some response \<Rightarrow>
          if status_code response = 200 then
            (case response_json response of
               Inl e \<Rightarrow> (if is_JSONDecodeError e then Inr boards else Inl e)
             | Inr data \<Rightarrow>
                 and_then (dict_get data ''views'' (JArr [])) (\<lambda>views.
                 and_then (py_len views) (\<lambda>_.
                 and_then (py_iter views) (\<lambda>vs. append_views vs boards))))
          else Inr boards)"

text \<open>Method 3, lines 364 to 376: one entry for each selected project.\<close>

definition project_board :: "project \<Rightarrow> json" where
  "project_board p =
     JObj [(''id'', JStr (''project-'' @ key p)),
           (''name'', JStr (name p @ '' (Project View)'')),
           (''type'', JStr ''project''),
           (''location'', JObj [(''projectKey'', JStr (key p))])]"

fun append_projects :: "project list \<Rightarrow> json \<Rightarrow> exn + json" where
  "append_projects [] boards = Inr boards"
| "append_projects (p # ps) boards =
     and_then (py_append boards (project_board p)) (append_projects ps)"

definition get_boards :: "jira \<Rightarrow> server \<Rightarrow> exn + json" where
  "get_boards self srv =
     and_then (agile_boards self srv) (\<lambda>boards.
       if truthy boards then Inr boards
       else and_then (greenhopper_boards self srv boards) (\<lambda>boards.
         if truthy boards then Inr boards
         else if \<not> truthy boards \<and> selected_projects self \<noteq> []
           then append_projects (selected_projects self) boards
         else Inr boards))"

text \<open>
  \<^verbatim>\<open>get_board_by_id\<close>, lines 542 to 564; \<^verbatim>\<open>None\<close> is \<open>JNull\<close>. The bare
  \<^verbatim>\<open>except\<close> turns every exception into \<^verbatim>\<open>None\<close>.
\<close>

definition get_board_by_id :: "jira \<Rightarrow> server \<Rightarrow> string \<Rightarrow> json" where
  "get_board_by_id self srv board_id =
     (case srv (base_url self @ ''/rest/agile/1.0/board/'' @ board_id) of
        None \<Rightarrow> JNull
      | Some response \<Rightarrow>
          if status_code response = 200 then
            (case response_json response of Inl e \<Rightarrow> JNull | Inr j \<Rightarrow> j)
          else
            (case srv (base_url self @ ''/rest/greenhopper/1.0/rapidview/'' @ board_id) of
               None \<Rightarrow> JNull
             | Some response2 \<Rightarrow>
                 if status_code response2 = 200 then
                   (case and_then (response_json response2) view_to_board of
                      Inl e \<Rightarrow> JNull
                    | Inr board \<Rightarrow> board)
                 else JNull))"

section \<open>Issue discovery\<close>

text \<open>
  The issue built from a record of the board work data, lines 946 to 965. Every field is read
  with \<^verbatim>\<open>issue_data.get\<close>, so a record that is not a dictionary raises at the first one.
\<close>

definition remap_issue :: "json \<Rightarrow> exn + json" where
  "remap_issue issue_data =
     (case issue_data of
        JObj kvs \<Rightarrow>
          (let get = (\<lambda>k d. case map_of kvs k of None \<Rightarrow> d | Some v \<Rightarrow> v) in
           Inr (JObj
             [(''key'', get ''key'' JNull),
              (''id'', get ''id'' JNull),
              (''fields'', JObj
                 [(''summary'', get ''summary'' JNull),
                  (''status'', JObj [(''name'', get ''statusName'' (JStr ''Unknown'')),
                                     (''id'', get ''statusId'' JNull)]),
                  (''assignee'',
                     if truthy (get ''assigneeName'' JNull)
                     then JObj [(''displayName'', get ''assigneeName'' (JStr ''Unassigned''))]
                     else JNull),
                  (''priority'', JObj [(''name'', get ''priorityName'' (JStr ''Unknown''))]),
                  (''issuetype'', JObj [(''name'', get ''typeName'' (JStr ''Unknown''))])])]))
      | _ \<Rightarrow> Inl AttributeError)"

fun append_issues :: "json list \<Rightarrow> json \<Rightarrow> exn + json" where
  "append_issues [] issues = Inr issues"
| "append_issues (issue_data # rest) issues =
     and_then (remap_issue issue_data) (\<lambda>issue.
     and_then (py_append issues issue) (append_issues rest))"

text \<open>
  \<^verbatim>\<open>get_board_issues\<close>, lines 921 to 982, one definition for each method. The first two
  give \<open>Some\<close> of the value returned, or \<open>None\<close> when the next method is tried.
\<close>

definition agile_issues :: "jira \<Rightarrow> server \<Rightarrow> string \<Rightarrow> exn + json option" where
  "agile_issues self srv board_id =
     (case srv (base_url self @ ''/rest/agile/1.0/board/'' @ board_id @ ''/issue'') of
        None \<Rightarrow> Inr None
      | Some response \<Rightarrow>
          if status_code response = 200 then
            (case and_then (response_json response) (\<lambda>j. dict_get j ''issues'' (JArr [])) of
               Inl e \<Rightarrow> (if is_RequestException e then Inr None else Inl e)
             | Inr issues \<Rightarrow> and_then (py_len issues) (\<lambda>_. Inr (Some issues)))
          else Inr None)"

definition greenhopper_issues :: "jira \<Rightarrow> server \<Rightarrow> string \<Rightarrow> exn + json option" where
  "greenhopper_issues self srv board_id =
     (case srv (base_url self @ ''/rest/greenhopper/1.0/xboard/work/allData/?rapidViewId='' @ board_id) of
        None \<Rightarrow> Inr None
      | Some response \<Rightarrow>
          if status_code response = 200 then
            (case response_json response of
               Inl e \<Rightarrow> (if is_RequestException e then Inr None else Inl e)
             | Inr data \<Rightarrow>
                 and_then (dict_get data ''issuesData'' (JObj [])) (\<lambda>d.
                 and_then (dict_get d ''issues'' (JArr [])) (\<lambda>issues_data.
                 and_then (py_iter issues_data) (\<lambda>recs.
                 and_then (append_issues recs (JArr [])) (\<lambda>issues. Inr (Some issues))))))
          else Inr None)"

definition board_project_key :: "json \<Rightarrow> exn + json" where
  "board_project_key board_info =
     and_then (dict_get board_info ''location'' (JObj [])) (\<lambda>location.
       dict_get location ''projectKey'' JNull)"

definition project_fallback_issues :: "jira \<Rightarrow> server \<Rightarrow> string \<Rightarrow> exn + json" where
  "project_fallback_issues self srv board_id =
     (let board_info = get_board_by_id self srv board_id in
      if truthy board_info then
        and_then (board_project_key board_info) (\<lambda>project_key.
          if truthy project_key \<and> project_key \<noteq> JStr ''N/A''
          then fst (get_project_issues self srv project_key)
          else Inr (JArr []))
      else Inr (JArr []))"

definition get_board_issues :: "jira \<Rightarrow> server \<Rightarrow> string \<Rightarrow> exn + json" where
  "get_board_issues self srv board_id =
     and_then (agile_issues self srv board_id) (\<lambda>r1.
       case r1 of
         Some issues \<Rightarrow> Inr issues
       | None \<Rightarrow>
           and_then (greenhopper_issues self srv board_id) (\<lambda>r2.
             case r2 of
               Some issues \<Rightarrow> Inr issues
             | None \<Rightarrow> project_fallback_issues self srv board_id))"

section \<open>Dates\<close>

text \<open>
  A \<^verbatim>\<open>datetime\<close>: its wall-clock fields, counted in microseconds on the calendar, and its
  offset from UTC in microseconds when it has one (\<^verbatim>\<open>tzinfo\<close> is a fixed offset, as
  \<^verbatim>\<open>%z\<close> and \<^verbatim>\<open>timezone.utc\<close> give it).
\<close>

record datetime =
  wall :: int
  tzinfo :: "int option"

text \<open>
  \<^verbatim>\<open>date1 >= date2\<close> in Python: two naive values compare by their fields, two aware
  values by their instants, and a naive value against an aware one raises \<^verbatim>\<open>TypeError\<close>.
\<close>

definition datetime_ge :: "datetime \<Rightarrow> datetime \<Rightarrow> exn + bool" where
  "datetime_ge date1 date2 =
     (case (tzinfo date1, tzinfo date2) of
        (None, None) \<Rightarrow> Inr (wall date2 \<le> wall date1)
      | (Some o1, Some o2) \<Rightarrow> Inr (wall date2 - o2 \<le> wall date1 - o1)
      | _ \<Rightarrow> Inl TypeError)"

text \<open>
  \<^verbatim>\<open>_compare_dates\<close>, lines 1132 to 1153. The comparison operator is a parameter \<open>ge\<close>, so
  that the \<^verbatim>\<open>except Exception\<close> clause is modelled for whatever the operator may raise;
  \<open>datetime_ge\<close> is the operator of Python. \<open>compare_dates_try\<close> is the body of the
  \<^verbatim>\<open>try\<close>.
\<close>

definition compare_dates_try ::
    "(datetime \<Rightarrow> datetime \<Rightarrow> exn + bool) \<Rightarrow> datetime \<Rightarrow> datetime \<Rightarrow> exn + bool" where
  "compare_dates_try ge date1 date2 =
     (if tzinfo date1 \<noteq> None \<and> tzinfo date2 \<noteq> None then ge date1 date2
      else if tzinfo date1 = None \<and> tzinfo date2 = None then ge date1 date2
      else if tzinfo date1 = None \<and> tzinfo date2 \<noteq> None
        then ge (date1\<lparr>tzinfo := Some 0\<rparr>) date2
      else if tzinfo date2 = None \<and> tzinfo date1 \<noteq> None
        then ge date1 (date2\<lparr>tzinfo := Some 0\<rparr>)
      else ge date1 date2)"

definition compare_dates ::
    "(datetime \<Rightarrow> datetime \<Rightarrow> exn + bool) \<Rightarrow> datetime \<Rightarrow> datetime \<Rightarrow> bool" where
  "compare_dates ge date1 date2 =
     (case compare_dates_try ge date1 date2 of Inl e \<Rightarrow> False | Inr b \<Rightarrow> b)"

text \<open>
  \<^verbatim>\<open>_parse_jira_date\<close>, lines 1155 to 1177. \<^verbatim>\<open>datetime.strptime\<close> is a parameter \<open>sp\<close>:
  \<open>sp s fmt\<close> is the value parsed from \<open>s\<close> under \<open>fmt\<close>, or \<open>None\<close> when
  \<^verbatim>\<open>strptime\<close> raises \<^verbatim>\<open>ValueError\<close>.
\<close>

type_synonym strptime = "string \<Rightarrow> string \<Rightarrow> datetime option"

definition formats :: "string list" where
  "formats =
     [''%Y-%m-%dT%H:%M:%S.%f%z'',
      ''%Y-%m-%dT%H:%M:%S%z'',
      ''%Y-%m-%dT%H:%M:%S.%fZ'',
      ''%Y-%m-%dT%H:%M:%SZ'',
      ''%Y-%m-%d'']"

definition clean_date :: "string \<Rightarrow> string" where
  "clean_date date_str =
     (if endswith date_str ''Z'' then replace_char (CHR ''Z'') ''+0000'' date_str else date_str)"

fun try_formats :: "strptime \<Rightarrow> string \<Rightarrow> string list \<Rightarrow> datetime option" where
  "try_formats sp date_str [] = None"
| "try_formats sp date_str (fmt # fmts) =
     (case sp (clean_date date_str) fmt of
        Some d \<Rightarrow> Some d
      | None \<Rightarrow> try_formats sp date_str fmts)"

definition parse_jira_date :: "strptime \<Rightarrow> json \<Rightarrow> exn + datetime option" where
  "parse_jira_date sp date_str =
     (if \<not> truthy date_str then Inr None
      else case date_str of
             JStr s \<Rightarrow> Inr (try_formats sp s formats)
           | _ \<Rightarrow> Inl AttributeError)"

section \<open>The activity classifier\<close>

text \<open>
  \<^verbatim>\<open>get_issues_by_date_range\<close>, lines 1091 to 1130. The dictionary
  \<^verbatim>\<open>categorized_issues\<close> has four fixed keys and is a record of four lists.
\<close>

datatype bucket = Started | Completed | Blocked | Other

record categorized =
  started :: "json list"
  completed :: "json list"
  blocked :: "json list"
  other :: "json list"

definition blocked_terms :: "string list" where
  "blocked_terms = [''blocked'', ''impediment'', ''hold'', ''waiting'', ''stuck'']"

definition done_terms :: "string list" where
  "done_terms = [''done'', ''closed'', ''resolved'', ''complete'']"

definition progress_terms :: "string list" where
  "progress_terms = [''progress'', ''development'', ''active'', ''working'']"

text \<open>\<^verbatim>\<open>any(term in issue_status for term in terms)\<close>.\<close>

definition any_in :: "string list \<Rightarrow> string \<Rightarrow> bool" where
  "any_in terms issue_status = list_ex (\<lambda>term. py_in term issue_status) terms"

text \<open>Line 1106, and the argument of \<^verbatim>\<open>_parse_jira_date\<close> in lines 1109 and 1110.\<close>

definition issue_status_lower :: "json \<Rightarrow> exn + string" where
  "issue_status_lower issue =
     and_then (dict_get issue ''fields'' (JObj [])) (\<lambda>fields.
     and_then (dict_get fields ''status'' (JObj [])) (\<lambda>status.
     and_then (dict_get status ''name'' (JStr [])) py_lower))"

definition issue_field :: "json \<Rightarrow> string \<Rightarrow> exn + json" where
  "issue_field issue k =
     and_then (dict_get issue ''fields'' (JObj [])) (\<lambda>fields. dict_get fields k JNull)"

text \<open>The \<^verbatim>\<open>if\<close> chain of lines 1113 to 1128: the list the issue is appended to.\<close>

definition choose_bucket ::
    "(datetime \<Rightarrow> datetime \<Rightarrow> exn + bool) \<Rightarrow> datetime \<Rightarrow> string \<Rightarrow> datetime option \<Rightarrow> bucket" where
  "choose_bucket ge cutoff_date issue_status updated_date =
     (if any_in blocked_terms issue_status then Blocked
      else if any_in done_terms issue_status then
        (case updated_date of
           None \<Rightarrow> Other
         | Some updated \<Rightarrow> if compare_dates ge updated cutoff_date then Completed else Other)
      else if any_in progress_terms issue_status then
        (case updated_date of
           None \<Rightarrow> Other
         | Some updated \<Rightarrow> if compare_dates ge updated cutoff_date then Started else Other)
      else Other)"

text \<open>The body of the loop for one issue: the bucket it lands in, or the exception raised.\<close>

definition issue_bucket ::
    "strptime \<Rightarrow> (datetime \<Rightarrow> datetime \<Rightarrow> exn + bool) \<Rightarrow> datetime \<Rightarrow> json \<Rightarrow> exn + bucket" where
  "issue_bucket sp ge cutoff_date issue =
     and_then (issue_status_lower issue) (\<lambda>issue_status.
     and_then (and_then (issue_field issue ''created'') (parse_jira_date sp)) (\<lambda>created_date.
     and_then (and_then (issue_field issue ''updated'') (parse_jira_date sp)) (\<lambda>updated_date.
       Inr (choose_bucket ge cutoff_date issue_status updated_date))))"

definition add_to :: "bucket \<Rightarrow> json \<Rightarrow> categorized \<Rightarrow> categorized" where
  "add_to b issue c =
     (case b of
        Started \<Rightarrow> c\<lparr>started := started c @ [issue]\<rparr>
      | Completed \<Rightarrow> c\<lparr>completed := completed c @ [issue]\<rparr>
      | Blocked \<Rightarrow> c\<lparr>blocked := blocked c @ [issue]\<rparr>
      | Other \<Rightarrow> c\<lparr>other := other c @ [issue]\<rparr>)"

fun categorize ::
    "strptime \<Rightarrow> (datetime \<Rightarrow> datetime \<Rightarrow> exn + bool) \<Rightarrow> datetime \<Rightarrow> json list \<Rightarrow>
     categorized \<Rightarrow> exn + categorized" where
  "categorize sp ge cutoff_date [] c = Inr c"
| "categorize sp ge cutoff_date (issue # issues) c =
     and_then (issue_bucket sp ge cutoff_date issue) (\<lambda>b.
       categorize sp ge cutoff_date issues (add_to b issue c))"

text \<open>
  The whole method. \<open>now\<close> is \<^verbatim>\<open>datetime.now(timezone.utc)\<close>; \<^verbatim>\<open>timedelta(days=days_back)\<close>
  is \<open>days_back\<close> times the microseconds of a day.
\<close>

definition get_issues_by_date_range ::
    "jira \<Rightarrow> server \<Rightarrow> strptime \<Rightarrow> (datetime \<Rightarrow> datetime \<Rightarrow> exn + bool) \<Rightarrow> int \<Rightarrow>
     string \<Rightarrow> int \<Rightarrow> exn + categorized" where
  "get_issues_by_date_range self srv sp ge now board_id days_back =
     and_then (get_board_issues self srv board_id) (\<lambda>all_issues.
       let cutoff_date = \<lparr>wall = now - days_back * 86400000000, tzinfo = Some 0\<rparr> in
       and_then (py_iter all_issues) (\<lambda>issues.
         categorize sp ge cutoff_date issues
           \<lparr>started = [], completed = [], blocked = [], other = []\<rparr>))"

section \<open>Reading an issue\<close>

text \<open>
  How the listing code reads the key, the status name and the assignee of an issue of the
  canonical shape: lines 1037 to 1040 of \<^verbatim>\<open>display_board_issues\<close> and line 999 of
  \<^verbatim>\<open>get_board_issues_by_status\<close>.
\<close>

definition issue_key :: "json \<Rightarrow> exn + json" where
  "issue_key issue = dict_get issue ''key'' (JStr ''Unknown'')"

definition issue_status_name :: "json \<Rightarrow> exn + json" where
  "issue_status_name issue =
     and_then (dict_get issue ''fields'' (JObj [])) (\<lambda>fields.
     and_then (dict_get fields ''status'' (JObj [])) (\<lambda>status.
       dict_get status ''name'' (JStr ''Unknown'')))"

definition issue_assignee :: "json \<Rightarrow> exn + json" where
  "issue_assignee issue =
     and_then (dict_get issue ''fields'' (JObj [])) (\<lambda>fields. dict_get fields ''assignee'' JNull)"

definition issue_assignee_name :: "json \<Rightarrow> exn + json" where
  "issue_assignee_name issue =
     and_then (issue_assignee issue) (\<lambda>assignee.
       if truthy assignee then dict_get assignee ''displayName'' (JStr ''Unassigned'')
       else Inr (JStr ''Unassigned''))"

section \<open>Notions of the specification\<close>

text \<open>
  The instant a \<^verbatim>\<open>datetime\<close> denotes on the UTC time line, a value without offset being
  read as UTC. This is the specification's reading of a naive operand, stated separately so
  that the comparison of the program can be compared with it.
\<close>

definition utc_instant :: "datetime \<Rightarrow> int" where
  "utc_instant d = wall d - (case tzinfo d of None \<Rightarrow> 0 | Some off \<Rightarrow> off)"

text \<open>
  An issue in the shape of the modern API that carries a key, a status name and an assignee
  display name (or no assignee): the record the specification compares a remapped legacy
  record with.
\<close>

definition native_issue :: "string \<Rightarrow> string \<Rightarrow> string option \<Rightarrow> json" where
  "native_issue k s a =
     JObj [(''key'', JStr k),
           (''fields'', JObj
              [(''status'', JObj [(''name'', JStr s)]),
               (''assignee'', case a of None \<Rightarrow> JNull
                                      | Some n \<Rightarrow> JObj [(''displayName'', JStr n)])])]"

text \<open>
  A request that fails in one of the three ways the specification lists: a network error, a
  status other than 200, or a body that is not JSON. A board has no resolvable project key
  when the lookup gave nothing, or the key read from it is empty or "N/A".
\<close>

definition failed_reply :: "response option \<Rightarrow> bool" where
  "failed_reply r =
     (case r of None \<Rightarrow> True | Some response \<Rightarrow> status_code response \<noteq> 200 \<or> resp_json response = None)"

definition no_project_key :: "json \<Rightarrow> bool" where
  "no_project_key board_info =
     (\<not> truthy board_info \<or>
      (case board_project_key board_info of
         Inl e \<Rightarrow> False
       | Inr project_key \<Rightarrow> \<not> truthy project_key \<or> project_key = JStr ''N/A''))"

section \<open>Sample data\<close>

text \<open>Issues, legacy records and a parsing function used to instantiate the theorems below.\<close>

definition blocked_issue :: json where
  "blocked_issue =
     JObj [(''key'', JStr ''AB-1''),
           (''fields'', JObj [(''status'', JObj [(''name'', JStr ''On Hold'')]),
                              (''updated'', JStr ''yesterday'')])]"

definition done_issue :: json where
  "done_issue =
     JObj [(''key'', JStr ''AB-2''),
           (''fields'', JObj [(''status'', JObj [(''name'', JStr ''Done'')]),
                              (''created'', JStr ''2024-01-15''),
                              (''updated'', JStr ''last week'')])]"

definition bare_date_only :: strptime where
  "bare_date_only s fmt =
     (if s = ''2024-01-15'' \<and> fmt = ''%Y-%m-%d'' then Some \<lparr>wall = 63840873600000000, tzinfo = None\<rparr>
      else None)"

definition legacy_record :: "(string \<times> json) list" where
  "legacy_record =
     [(''id'', JNum 10001), (''key'', JStr ''AB-7''), (''summary'', JStr ''Fix login''),
      (''statusName'', JStr ''In Progress''), (''assigneeName'', JStr ''Ann Lee'')]"

definition legacy_record_unassigned :: "(string \<times> json) list" where
  "legacy_record_unassigned =
     [(''id'', JNum 10002), (''key'', JStr ''AB-8''), (''statusName'', JStr ''Done'')]"

definition reply :: "int \<Rightarrow> string \<Rightarrow> json option \<Rightarrow> response" where
  "reply code body j = \<lparr>status_code = code, resp_text = body, resp_json = j\<rparr>"

definition one_project :: jira where
  "one_project = \<lparr>base_url = ''https://jira.example.com'', api_version = Some ''v2'',
                   selected_projects = [\<lparr>key = ''AB'', name = ''Alpha''\<rparr>]\<rparr>"

definition no_boards_server :: server where
  "no_boards_server url =
     (if url = ''https://jira.example.com/rest/agile/1.0/board'' then Some (reply 404 ''Not Found'' None)
      else if url = ''https://jira.example.com/rest/greenhopper/1.0/rapidview''
        then Some (reply 200 ''{\"views\": []}'' (Some (JObj [(''views'', JArr [])])))
      else None)"

definition agile_server :: server where
  "agile_server url =
     (if url = ''https://jira.example.com/rest/agile/1.0/board''
      then Some (reply 200 ''{\"values\": [{\"id\": 7}]}''
                  (Some (JObj [(''values'', JArr [JObj [(''id'', JNum 7)]])])))
      else None)"

definition rapidview_server :: server where
  "rapidview_server url =
     (if url = ''https://jira.example.com/rest/agile/1.0/board'' then Some (reply 404 ''Not Found'' None)
      else if url = ''https://jira.example.com/rest/greenhopper/1.0/rapidview''
        then Some (reply 200 ''{\"views\": [{\"id\": 3, \"name\": \"Team\", \"sprintSupportEnabled\": true, \"filter\": {\"query\": \"project = AB ORDER BY Rank\"}}]}''
          (Some (JObj [(''views'', JArr [JObj [(''id'', JNum 3), (''name'', JStr ''Team''),
             (''sprintSupportEnabled'', JBool True),
             (''filter'', JObj [(''query'', JStr ''project = AB ORDER BY Rank'')])]])])))
      else None)"

definition failing_server :: server where
  "failing_server url =
     (if url = ''https://jira.example.com/rest/agile/1.0/board/7/issue''
        then Some (reply 500 ''Internal Server Error'' None)
      else if url = ''https://jira.example.com/rest/greenhopper/1.0/xboard/work/allData/?rapidViewId=7''
        then Some (reply 200 ''<html>Log in</html>'' None)
      else if url = ''https://jira.example.com/rest/agile/1.0/board/7''
        then Some (reply 200 ''{\"id\": 7, \"name\": \"Team\"}''
                     (Some (JObj [(''id'', JNum 7), (''name'', JStr ''Team'')])))
      else None)"

definition search_down_server :: server where
  "search_down_server url =
     (if url = ''https://jira.example.com/rest/agile/1.0/board/7''
        then Some (reply 200 ''{\"id\": 7, \"location\": {\"projectKey\": \"AB\"}}''
               (Some (JObj [(''id'', JNum 7), (''location'', JObj [(''projectKey'', JStr ''AB'')])])))
      else if url = ''https://jira.example.com/rest/api/3/search''
        then Some (reply 404 ''Not Found'' None)
      else Some (reply 503 ''Service Unavailable'' None))"






definition array_body_server :: server where
  "array_body_server url = Some (reply 200 ''[]'' (Some (JArr [])))"

definition numeric_date_issue :: json where
  "numeric_date_issue =
     JObj [(''key'', JStr ''AB-3''),
           (''fields'', JObj [(''status'', JObj [(''name'', JStr ''Blocked'')]),
                              (''updated'', JNum 1705314645000)])]"

section \<open>Properties of the impact scorer\<close>

lemma keyword_scan_first_hit:
  "keyword_scan ks t s = s + (if (\<exists>k \<in> set ks. py_in k t) then 1 else 0)"
  by (induction ks) auto

lemma impact_score_sum:
  "impact_score issue_type priority labels description =
     priority_points priority + type_points issue_type +
     (if (\<exists>keyword \<in> set high_impact_keywords.
            py_in keyword (lower (join '' '' (labels @ [description])))) then 1 else 0)"
  by (simp add: impact_score_def Let_def keyword_scan_first_hit)

lemma scenario_high_score: "impact_score ''Bug - Critical'' ''Highest'' [] '''' = 6"
  by code_simp

lemma scenario_low_score: "impact_score ''Task'' ''Low'' [''customer impact''] '''' = 2"
  by code_simp

lemma messages_distinct: "HIGH \<noteq> MEDIUM \<and> HIGH \<noteq> LOW \<and> MEDIUM \<noteq> LOW"
  by (simp add: HIGH_def MEDIUM_def LOW_def)

text \<open>
  Claim C8. For every input the impact scorer adds the weight of the priority (4 for critical
  or highest, else 3 for high, else 2 for medium, else 1), the weight of the issue type (2 for
  a bug that is critical or a blocker, else 2 for security, else 1 for feature or epic, else
  nothing) and at most 1 for a high-impact keyword in the lower-cased, space-joined labels and
  description. A total of 6 or more gives the HIGH message, of 4 or more the MEDIUM message,
  anything else the LOW message, and the three messages differ. The type "Bug - Critical" with
  priority "Highest", no labels and an empty description totals 6 and is HIGH; the type "Task"
  with priority "Low", the label "customer impact" and an empty description totals 2 and is LOW.
\<close>

theorem impact_scorer_weights_and_thresholds:
  "impact_score issue_type priority labels description =
       (if py_in ''critical'' (lower priority) \<or> py_in ''highest'' (lower priority) then 4
        else if py_in ''high'' (lower priority) then 3
        else if py_in ''medium'' (lower priority) then 2
        else 1)
     + (if py_in ''bug'' (lower issue_type) \<and>
           (py_in ''critical'' (lower issue_type) \<or> py_in ''blocker'' (lower issue_type)) then 2
        else if py_in ''security'' (lower issue_type) then 2
        else if py_in ''feature'' (lower issue_type) \<or> py_in ''epic'' (lower issue_type) then 1
        else 0)
     + (if (\<exists>keyword \<in> set [''outage'', ''down'', ''critical'', ''security'', ''data loss'',
                                ''customer impact'', ''revenue''].
              py_in keyword (lower (join '' '' (labels @ [description])))) then 1 else 0)
   \<and> assess_business_impact issue_type priority labels description =
       (if 6 \<le> impact_score issue_type priority labels description then HIGH
        else if 4 \<le> impact_score issue_type priority labels description then MEDIUM
        else LOW)
   \<and> HIGH \<noteq> MEDIUM \<and> HIGH \<noteq> LOW \<and> MEDIUM \<noteq> LOW
   \<and> impact_score ''Bug - Critical'' ''Highest'' [] '''' = 6
   \<and> assess_business_impact ''Bug - Critical'' ''Highest'' [] '''' = HIGH
   \<and> impact_score ''Task'' ''Low'' [''customer impact''] '''' = 2
   \<and> assess_business_impact ''Task'' ''Low'' [''customer impact''] '''' = LOW"
proof -
  have weights: "impact_score issue_type priority labels description =
       (if py_in ''critical'' (lower priority) \<or> py_in ''highest'' (lower priority) then 4
        else if py_in ''high'' (lower priority) then 3
        else if py_in ''medium'' (lower priority) then 2
        else 1)
     + (if py_in ''bug'' (lower issue_type) \<and>
           (py_in ''critical'' (lower issue_type) \<or> py_in ''blocker'' (lower issue_type)) then 2
        else if py_in ''security'' (lower issue_type) then 2
        else if py_in ''feature'' (lower issue_type) \<or> py_in ''epic'' (lower issue_type) then 1
        else 0)
     + (if (\<exists>keyword \<in> set [''outage'', ''down'', ''critical'', ''security'', ''data loss'',
                                ''customer impact'', ''revenue''].
              py_in keyword (lower (join '' '' (labels @ [description])))) then 1 else 0)"
    unfolding impact_score_sum priority_points_def type_points_def high_impact_keywords_def Let_def
    by (rule refl)
  have levels: "assess_business_impact t p l d =
       (if 6 \<le> impact_score t p l d then HIGH
        else if 4 \<le> impact_score t p l d then MEDIUM else LOW)" for t p l d
    by (simp add: assess_business_impact_def Let_def)
  have high: "assess_business_impact ''Bug - Critical'' ''Highest'' [] '''' = HIGH"
    by (simp only: levels scenario_high_score) simp
  have low: "assess_business_impact ''Task'' ''Low'' [''customer impact''] '''' = LOW"
    by (simp only: levels scenario_low_score) simp
  from weights levels high low messages_distinct scenario_high_score scenario_low_score
  show ?thesis by blast
qed

section \<open>Properties of the date normalizer\<close>

lemma compare_dates_try_python:
  "compare_dates_try datetime_ge date1 date2 = Inr (utc_instant date2 \<le> utc_instant date1)"
  by (cases "tzinfo date1"; cases "tzinfo date2")
     (simp_all add: compare_dates_try_def datetime_ge_def utc_instant_def)

lemma compare_dates_python:
  "compare_dates datetime_ge date1 date2 = (utc_instant date2 \<le> utc_instant date1)"
  by (simp add: compare_dates_def compare_dates_try_python)

text \<open>
  Claim C6. With the comparison of Python, \<^verbatim>\<open>_compare_dates\<close> says whether the first
  operand is at or after the second on the UTC time line, an operand without offset being read
  as UTC. Two naive operands are compared directly by their wall-clock fields and two aware
  operands by their instants; when exactly one operand is naive the result is the one obtained
  after giving it the UTC offset, so for the same wall-clock times the naive-against-aware
  comparison agrees with the aware-against-aware one.
\<close>

theorem compare_dates_offset_tolerant:
  "compare_dates datetime_ge date1 date2 = (utc_instant date2 \<le> utc_instant date1)
   \<and> compare_dates datetime_ge \<lparr>wall = w1, tzinfo = None\<rparr> \<lparr>wall = w2, tzinfo = None\<rparr> = (w2 \<le> w1)
   \<and> compare_dates datetime_ge \<lparr>wall = w1, tzinfo = Some o1\<rparr> \<lparr>wall = w2, tzinfo = Some o2\<rparr>
       = (w2 - o2 \<le> w1 - o1)
   \<and> compare_dates datetime_ge \<lparr>wall = w1, tzinfo = None\<rparr> \<lparr>wall = w2, tzinfo = Some o2\<rparr>
       = compare_dates datetime_ge \<lparr>wall = w1, tzinfo = Some 0\<rparr> \<lparr>wall = w2, tzinfo = Some o2\<rparr>
   \<and> compare_dates datetime_ge \<lparr>wall = w1, tzinfo = Some o1\<rparr> \<lparr>wall = w2, tzinfo = None\<rparr>
       = compare_dates datetime_ge \<lparr>wall = w1, tzinfo = Some o1\<rparr> \<lparr>wall = w2, tzinfo = Some 0\<rparr>
   \<and> compare_dates datetime_ge \<lparr>wall = w1, tzinfo = None\<rparr> \<lparr>wall = w2, tzinfo = None\<rparr>
       = compare_dates datetime_ge \<lparr>wall = w1, tzinfo = Some 0\<rparr> \<lparr>wall = w2, tzinfo = Some 0\<rparr>"
  by (simp add: compare_dates_python utc_instant_def)

lemma compare_dates_raise:
  "compare_dates_try ge date1 date2 = Inl e \<Longrightarrow> compare_dates ge date1 date2 = False"
  by (simp add: compare_dates_def)

lemma choose_bucket_raise:
  assumes "compare_dates_try ge updated cutoff_date = Inl e"
  shows "choose_bucket ge cutoff_date issue_status (Some updated) = Blocked
       \<or> choose_bucket ge cutoff_date issue_status (Some updated) = Other"
  using compare_dates_raise [OF assms] by (simp add: choose_bucket_def)

text \<open>
  Claim C10. \<^verbatim>\<open>_compare_dates\<close> always returns a truth value. Whatever the comparison
  operator does, if the body of the \<^verbatim>\<open>try\<close> raises then the result is \<open>False\<close>, and an
  issue whose update is compared that way is neither started nor completed; the result is
  \<open>True\<close> only when the body returned \<open>True\<close>. With the comparison of Python the body
  never raises on two \<^verbatim>\<open>datetime\<close> values.
\<close>

theorem compare_dates_never_raises:
  "(compare_dates_try ge date1 date2 = Inl e \<longrightarrow>
      compare_dates ge date1 date2 = False
      \<and> choose_bucket ge date2 issue_status (Some date1) \<noteq> Started
      \<and> choose_bucket ge date2 issue_status (Some date1) \<noteq> Completed)
   \<and> (compare_dates ge date1 date2 \<longrightarrow> compare_dates_try ge date1 date2 = Inr True)
   \<and> (\<exists>r. compare_dates_try datetime_ge date1 date2 = Inr r)"
proof (intro conjI impI)
  assume raised: "compare_dates_try ge date1 date2 = Inl e"
  then show "compare_dates ge date1 date2 = False" by (rule compare_dates_raise)
  from choose_bucket_raise [OF raised, of issue_status]
  show "choose_bucket ge date2 issue_status (Some date1) \<noteq> Started"
    and "choose_bucket ge date2 issue_status (Some date1) \<noteq> Completed"
    by auto
next
  assume "compare_dates ge date1 date2"
  then show "compare_dates_try ge date1 date2 = Inr True"
    by (simp add: compare_dates_def split: sum.splits)
next
  show "\<exists>r. compare_dates_try datetime_ge date1 date2 = Inr r"
    by (simp add: compare_dates_try_python)
qed

theorem compare_dates_never_raises_witness:
  "compare_dates (\<lambda>a b. Inl TypeError) \<lparr>wall = 5, tzinfo = None\<rparr> \<lparr>wall = 3, tzinfo = Some 0\<rparr> = False
   \<and> choose_bucket (\<lambda>a b. Inl TypeError) \<lparr>wall = 3, tzinfo = Some 0\<rparr> ''done'' (Some \<lparr>wall = 5, tzinfo = None\<rparr>) \<noteq> Started
   \<and> choose_bucket (\<lambda>a b. Inl TypeError) \<lparr>wall = 3, tzinfo = Some 0\<rparr> ''done'' (Some \<lparr>wall = 5, tzinfo = None\<rparr>) \<noteq> Completed
   \<and> compare_dates datetime_ge \<lparr>wall = 5, tzinfo = None\<rparr> \<lparr>wall = 3, tzinfo = Some 0\<rparr>
   \<and> compare_dates_try datetime_ge \<lparr>wall = 5, tzinfo = None\<rparr> \<lparr>wall = 3, tzinfo = Some 0\<rparr> = Inr True"
proof -
  have raised: "compare_dates_try (\<lambda>a b. Inl TypeError) \<lparr>wall = 5, tzinfo = None\<rparr> \<lparr>wall = 3, tzinfo = Some 0\<rparr>
      = Inl TypeError"
    by (simp add: compare_dates_try_def)
  have holds: "compare_dates datetime_ge \<lparr>wall = 5, tzinfo = None\<rparr> \<lparr>wall = 3, tzinfo = Some 0\<rparr>"
    by (simp add: compare_dates_def compare_dates_try_def datetime_ge_def)
  from compare_dates_never_raises [of "\<lambda>a b. Inl TypeError" "\<lparr>wall = 5, tzinfo = None\<rparr>"
      "\<lparr>wall = 3, tzinfo = Some 0\<rparr>" TypeError "''done''"] raised
    compare_dates_never_raises [of datetime_ge "\<lparr>wall = 5, tzinfo = None\<rparr>"
      "\<lparr>wall = 3, tzinfo = Some 0\<rparr>" TypeError "''done''"] holds
  show ?thesis by blast
qed

lemma try_formats_find:
  "try_formats sp date_str fmts =
     (case List.find (\<lambda>fmt. sp (clean_date date_str) fmt \<noteq> None) fmts of
        None \<Rightarrow> None
      | Some fmt \<Rightarrow> sp (clean_date date_str) fmt)"
  by (induction fmts) (auto split: option.splits)

lemma endswith_snoc: "endswith s [c] \<longleftrightarrow> s \<noteq> [] \<and> last s = c"
proof (cases s rule: rev_cases)
  case Nil
  then show ?thesis by (simp add: endswith_def)
next
  case (snoc ys y)
  then show ?thesis by (auto simp add: endswith_def)
qed

lemma replace_char_append:
  "replace_char c new (xs @ ys) = replace_char c new xs @ replace_char c new ys"
  by (simp add: replace_char_def)

lemma clean_date_suffix:
  "clean_date date_str =
     (if endswith date_str ''Z''
      then replace_char (CHR ''Z'') ''+0000'' (butlast date_str) @ ''+0000''
      else date_str)"
proof (cases "endswith date_str ''Z''")
  case True
  then have split: "date_str = butlast date_str @ ''Z''"
    by (simp add: endswith_snoc) (metis append_butlast_last_id)
  have "replace_char (CHR ''Z'') ''+0000'' (butlast date_str @ ''Z'')
      = replace_char (CHR ''Z'') ''+0000'' (butlast date_str) @ ''+0000''"
    by (simp add: replace_char_append) (simp add: replace_char_def)
  with split have "replace_char (CHR ''Z'') ''+0000'' date_str
      = replace_char (CHR ''Z'') ''+0000'' (butlast date_str) @ ''+0000''"
    by simp
  with True show ?thesis by (simp add: clean_date_def)
next
  case False
  then show ?thesis by (simp add: clean_date_def)
qed

text \<open>
  Claim C7. For every input string the parser tries the five formats in the fixed order
  (fractional seconds with offset, whole seconds with offset, fractional seconds with a
  literal Z, whole seconds with a literal Z, bare date) on the cleaned string, and the first
  format under which \<^verbatim>\<open>strptime\<close> succeeds gives the result; when none succeeds, and for
  the empty string, the result is none. The cleaned string is the input itself unless it ends
  with Z; then the final Z is rewritten to +0000 (as is every other Z of the string).
\<close>

theorem parse_jira_date_first_format_wins:
  "parse_jira_date sp (JStr date_str) =
     Inr (if date_str = [] then None
          else case sp (clean_date date_str) ''%Y-%m-%dT%H:%M:%S.%f%z'' of Some d \<Rightarrow> Some d | None \<Rightarrow>
              (case sp (clean_date date_str) ''%Y-%m-%dT%H:%M:%S%z'' of Some d \<Rightarrow> Some d | None \<Rightarrow>
              (case sp (clean_date date_str) ''%Y-%m-%dT%H:%M:%S.%fZ'' of Some d \<Rightarrow> Some d | None \<Rightarrow>
              (case sp (clean_date date_str) ''%Y-%m-%dT%H:%M:%SZ'' of Some d \<Rightarrow> Some d | None \<Rightarrow>
              (case sp (clean_date date_str) ''%Y-%m-%d'' of Some d \<Rightarrow> Some d | None \<Rightarrow> None)))))
   \<and> parse_jira_date sp (JStr date_str) =
     Inr (if date_str = [] then None
          else case List.find (\<lambda>fmt. sp (clean_date date_str) fmt \<noteq> None) formats of
                 None \<Rightarrow> None
               | Some fmt \<Rightarrow> sp (clean_date date_str) fmt)
   \<and> clean_date date_str =
       (if endswith date_str ''Z''
        then replace_char (CHR ''Z'') ''+0000'' (butlast date_str) @ ''+0000''
        else date_str)
   \<and> clean_date ''2024-01-15T10:30:45Z'' = ''2024-01-15T10:30:45+0000''"
proof -
  have chain: "parse_jira_date sp (JStr date_str) =
     Inr (if date_str = [] then None
          else case sp (clean_date date_str) ''%Y-%m-%dT%H:%M:%S.%f%z'' of Some d \<Rightarrow> Some d | None \<Rightarrow>
              (case sp (clean_date date_str) ''%Y-%m-%dT%H:%M:%S%z'' of Some d \<Rightarrow> Some d | None \<Rightarrow>
              (case sp (clean_date date_str) ''%Y-%m-%dT%H:%M:%S.%fZ'' of Some d \<Rightarrow> Some d | None \<Rightarrow>
              (case sp (clean_date date_str) ''%Y-%m-%dT%H:%M:%SZ'' of Some d \<Rightarrow> Some d | None \<Rightarrow>
              (case sp (clean_date date_str) ''%Y-%m-%d'' of Some d \<Rightarrow> Some d | None \<Rightarrow> None)))))"
    by (simp add: parse_jira_date_def formats_def split: option.splits)
  have first: "parse_jira_date sp (JStr date_str) =
     Inr (if date_str = [] then None
          else case List.find (\<lambda>fmt. sp (clean_date date_str) fmt \<noteq> None) formats of
                 None \<Rightarrow> None
               | Some fmt \<Rightarrow> sp (clean_date date_str) fmt)"
    by (simp add: parse_jira_date_def try_formats_find)
  have example: "clean_date ''2024-01-15T10:30:45Z'' = ''2024-01-15T10:30:45+0000''"
    by code_simp
  from chain first example clean_date_suffix [of date_str] show ?thesis by blast
qed

section \<open>Properties of the activity classifier\<close>

lemma try_formats_all_fail:
  "(\<forall>fmt \<in> set fmts. sp (clean_date date_str) fmt = None) \<Longrightarrow> try_formats sp date_str fmts = None"
  by (induction fmts) auto

lemma parse_jira_date_unparseable:
  assumes "\<not> truthy updated \<or>
           (\<exists>s. updated = JStr s \<and> (\<forall>fmt \<in> set formats. sp (clean_date s) fmt = None))"
  shows "parse_jira_date sp updated = Inr None"
  using assms by (auto simp: parse_jira_date_def try_formats_all_fail)

lemma issue_bucket_readable:
  assumes "issue_status_lower issue = Inr issue_status"
    and "and_then (issue_field issue ''created'') (parse_jira_date sp) = Inr created_date"
    and "and_then (issue_field issue ''updated'') (parse_jira_date sp) = Inr updated_date"
  shows "issue_bucket sp ge cutoff_date issue = Inr (choose_bucket ge cutoff_date issue_status updated_date)"
  using assms by (simp add: issue_bucket_def and_then_def)

text \<open>
  Claim C2. An issue whose lower-cased status name contains one of blocked, impediment, hold,
  waiting, stuck is put in the blocked bucket, whatever its updated timestamp is and whether
  or not it parses, for every parsing function, comparison and cutoff. The timestamps are
  strings or absent, so that reading them does not raise.
\<close>

theorem blocked_status_lands_in_blocked:
  assumes "issue_status_lower issue = Inr issue_status"
    and "\<exists>term \<in> set [''blocked'', ''impediment'', ''hold'', ''waiting'', ''stuck''].
           py_in term issue_status"
    and "and_then (issue_field issue ''created'') (parse_jira_date sp) = Inr created_date"
    and "and_then (issue_field issue ''updated'') (parse_jira_date sp) = Inr updated_date"
  shows "issue_bucket sp ge cutoff_date issue = Inr Blocked
       \<and> categorize sp ge cutoff_date [issue] c = Inr (c\<lparr>blocked := blocked c @ [issue]\<rparr>)"
proof -
  from assms(2) have "any_in blocked_terms issue_status"
    by (simp add: any_in_def blocked_terms_def)
  then have "choose_bucket ge cutoff_date issue_status updated_date = Blocked"
    by (simp add: choose_bucket_def)
  with issue_bucket_readable [OF assms(1,3,4)]
  have b: "issue_bucket sp ge cutoff_date issue = Inr Blocked" by simp
  then show ?thesis by (simp add: and_then_def add_to_def)
qed

theorem blocked_status_lands_in_blocked_witness:
  "issue_bucket (\<lambda>s fmt. None) datetime_ge \<lparr>wall = 0, tzinfo = Some 0\<rparr> blocked_issue = Inr Blocked
   \<and> categorize (\<lambda>s fmt. None) datetime_ge \<lparr>wall = 0, tzinfo = Some 0\<rparr> [blocked_issue]
        \<lparr>started = [], completed = [], blocked = [], other = []\<rparr>
      = Inr \<lparr>started = [], completed = [], blocked = [blocked_issue], other = []\<rparr>"
proof -
  have h1: "issue_status_lower blocked_issue = Inr ''on hold''"
    by code_simp
  have h2: "\<exists>term \<in> set [''blocked'', ''impediment'', ''hold'', ''waiting'', ''stuck''].
              py_in term ''on hold''"
    by code_simp
  have h3: "and_then (issue_field blocked_issue ''created'') (parse_jira_date (\<lambda>s fmt. None)) = Inr None"
    by code_simp
  have h4: "and_then (issue_field blocked_issue ''updated'') (parse_jira_date (\<lambda>s fmt. None)) = Inr None"
    by code_simp
  from blocked_status_lands_in_blocked [OF h1 h2 h3 h4, of datetime_ge "\<lparr>wall = 0, tzinfo = Some 0\<rparr>"
      "\<lparr>started = [], completed = [], blocked = [], other = []\<rparr>"]
  show ?thesis by (simp del: categorize.simps)
qed

text \<open>
  Claim C3. An issue whose updated timestamp is absent (or empty), or is a string that fails
  to parse under all five formats, is never put in the started or the completed bucket: it is
  blocked when its status matches a blocked keyword and other in every other case, also when
  its status matches the done-like or in-progress-like keywords.
\<close>

theorem unparseable_update_never_started_or_completed:
  assumes "issue_status_lower issue = Inr issue_status"
    and "and_then (issue_field issue ''created'') (parse_jira_date sp) = Inr created_date"
    and "issue_field issue ''updated'' = Inr updated"
    and "\<not> truthy updated \<or>
         (\<exists>s. updated = JStr s \<and> (\<forall>fmt \<in> set formats. sp (clean_date s) fmt = None))"
  shows "issue_bucket sp ge cutoff_date issue
           = Inr (if any_in blocked_terms issue_status then Blocked else Other)
       \<and> issue_bucket sp ge cutoff_date issue \<noteq> Inr Started
       \<and> issue_bucket sp ge cutoff_date issue \<noteq> Inr Completed"
proof -
  from assms(3) parse_jira_date_unparseable [OF assms(4)]
  have "and_then (issue_field issue ''updated'') (parse_jira_date sp) = Inr None"
    by (simp add: and_then_def)
  from issue_bucket_readable [OF assms(1,2) this]
  have "issue_bucket sp ge cutoff_date issue = Inr (choose_bucket ge cutoff_date issue_status None)" .
  then show ?thesis by (simp add: choose_bucket_def)
qed

theorem unparseable_update_never_started_or_completed_witness:
  "issue_bucket bare_date_only datetime_ge \<lparr>wall = 0, tzinfo = Some 0\<rparr> done_issue = Inr Other
   \<and> issue_bucket bare_date_only datetime_ge \<lparr>wall = 0, tzinfo = Some 0\<rparr> done_issue \<noteq> Inr Started
   \<and> issue_bucket bare_date_only datetime_ge \<lparr>wall = 0, tzinfo = Some 0\<rparr> done_issue \<noteq> Inr Completed"
proof -
  have h1: "issue_status_lower done_issue = Inr ''done''"
    by code_simp
  have h2: "and_then (issue_field done_issue ''created'') (parse_jira_date bare_date_only)
      = Inr (Some \<lparr>wall = 63840873600000000, tzinfo = None\<rparr>)"
    by code_simp
  have h3: "issue_field done_issue ''updated'' = Inr (JStr ''last week'')"
    by code_simp
  have fails: "\<forall>fmt \<in> set formats. bare_date_only (clean_date ''last week'') fmt = None"
    by code_simp
  then have h4: "\<not> truthy (JStr ''last week'') \<or>
      (\<exists>s. JStr ''last week'' = JStr s \<and> (\<forall>fmt \<in> set formats. bare_date_only (clean_date s) fmt = None))"
    by blast
  have not_blocked: "\<not> any_in blocked_terms ''done''"
    by code_simp
  from unparseable_update_never_started_or_completed [OF h1 h2 h3 h4, of datetime_ge
      "\<lparr>wall = 0, tzinfo = Some 0\<rparr>"] not_blocked
  show ?thesis by simp
qed

text \<open>
  The timestamps have to be strings or absent: on any other value \<^verbatim>\<open>_parse_jira_date\<close>
  calls \<^verbatim>\<open>endswith\<close> on it, and the exception leaves the loop before the status is looked
  at.
\<close>

lemma numeric_timestamp_raises:
  "issue_bucket sp ge cutoff_date numeric_date_issue = Inl AttributeError"
  by (simp add: issue_bucket_def issue_status_lower_def issue_field_def numeric_date_issue_def
      parse_jira_date_def and_then_def)

section \<open>Properties of the legacy remapping\<close>

lemma native_issue_reads:
  "issue_key (native_issue k s a) = Inr (JStr k)"
  "issue_status_name (native_issue k s a) = Inr (JStr s)"
  "issue_status_lower (native_issue k s a) = Inr (lower s)"
  "issue_assignee_name (native_issue k s a)
     = Inr (JStr (case a of None \<Rightarrow> ''Unassigned'' | Some n \<Rightarrow> n))"
  "issue_assignee (native_issue k s None) = Inr JNull"
  by (simp_all add: native_issue_def issue_key_def issue_status_name_def issue_status_lower_def
      issue_assignee_name_def issue_assignee_def and_then_def split: option.splits)

lemma remap_issue_reads:
  assumes "map_of kvs ''key'' = Some (JStr k)"
    and "map_of kvs ''statusName'' = Some (JStr s)"
  shows "and_then (remap_issue (JObj kvs)) issue_key = Inr (JStr k)"
    and "and_then (remap_issue (JObj kvs)) issue_status_name = Inr (JStr s)"
    and "and_then (remap_issue (JObj kvs)) issue_status_lower = Inr (lower s)"
  using assms
  by (simp_all add: remap_issue_def issue_key_def issue_status_name_def issue_status_lower_def
      and_then_def Let_def)

lemma remap_issue_assignee_absent:
  assumes "map_of kvs ''assigneeName'' = None \<or> map_of kvs ''assigneeName'' = Some JNull
         \<or> map_of kvs ''assigneeName'' = Some (JStr [])"
  shows "and_then (remap_issue (JObj kvs)) issue_assignee = Inr JNull"
    and "and_then (remap_issue (JObj kvs)) issue_assignee_name = Inr (JStr ''Unassigned'')"
  using assms
  by (auto simp add: remap_issue_def issue_assignee_name_def issue_assignee_def and_then_def Let_def)

lemma remap_issue_assignee_named:
  assumes "map_of kvs ''assigneeName'' = Some (JStr n)" and "n \<noteq> []"
  shows "and_then (remap_issue (JObj kvs)) issue_assignee_name = Inr (JStr n)"
  using assms
  by (simp add: remap_issue_def issue_assignee_name_def issue_assignee_def and_then_def Let_def)

text \<open>
  Claim C9. A record of the board work data with a key, a status name and an assignee name is
  remapped to an issue on which the listing code reads the same key, the same status name and
  the same assignee display name as on the modern-shape issue carrying these values. A record
  whose assignee name is absent (missing, null or empty) is remapped to an issue with a null
  assignee, which reads as "Unassigned", as the modern-shape issue without assignee does.
\<close>

theorem remap_issue_preserves_key_status_assignee:
  assumes "map_of kvs ''key'' = Some (JStr k)"
    and "map_of kvs ''statusName'' = Some (JStr s)"
    and "(a = None \<and> (map_of kvs ''assigneeName'' = None \<or> map_of kvs ''assigneeName'' = Some JNull
                      \<or> map_of kvs ''assigneeName'' = Some (JStr [])))
       \<or> (\<exists>n. a = Some n \<and> n \<noteq> [] \<and> map_of kvs ''assigneeName'' = Some (JStr n))"
  shows "and_then (remap_issue (JObj kvs)) issue_key = issue_key (native_issue k s a)
       \<and> and_then (remap_issue (JObj kvs)) issue_key = Inr (JStr k)
       \<and> and_then (remap_issue (JObj kvs)) issue_status_name = issue_status_name (native_issue k s a)
       \<and> and_then (remap_issue (JObj kvs)) issue_status_name = Inr (JStr s)
       \<and> and_then (remap_issue (JObj kvs)) issue_status_lower = issue_status_lower (native_issue k s a)
       \<and> and_then (remap_issue (JObj kvs)) issue_assignee_name = issue_assignee_name (native_issue k s a)
       \<and> and_then (remap_issue (JObj kvs)) issue_assignee_name
           = Inr (JStr (case a of None \<Rightarrow> ''Unassigned'' | Some n \<Rightarrow> n))
       \<and> and_then (remap_issue (JObj kvs)) issue_assignee
           = Inr (case a of None \<Rightarrow> JNull | Some n \<Rightarrow> JObj [(''displayName'', JStr n)])"
proof -
  note r = remap_issue_reads [OF assms(1,2)]
  from assms(3) consider
      (absent) "a = None"
        "map_of kvs ''assigneeName'' = None \<or> map_of kvs ''assigneeName'' = Some JNull
         \<or> map_of kvs ''assigneeName'' = Some (JStr [])"
    | (named) n where "a = Some n" "n \<noteq> []" "map_of kvs ''assigneeName'' = Some (JStr n)"
    by blast
  then show ?thesis
  proof cases
    case absent
    from remap_issue_assignee_absent [OF absent(2)] r absent(1) show ?thesis
      by (simp add: native_issue_reads)
  next
    case named
    have "and_then (remap_issue (JObj kvs)) issue_assignee = Inr (JObj [(''displayName'', JStr n)])"
      using named(2,3) by (simp add: remap_issue_def issue_assignee_def and_then_def Let_def)
    with remap_issue_assignee_named [OF named(3,2)] r named(1) show ?thesis
      by (simp add: native_issue_reads)
  qed
qed

theorem remap_issue_preserves_key_status_assignee_witness:
  "and_then (remap_issue (JObj legacy_record)) issue_key = Inr (JStr ''AB-7'')
   \<and> and_then (remap_issue (JObj legacy_record)) issue_status_name = Inr (JStr ''In Progress'')
   \<and> and_then (remap_issue (JObj legacy_record)) issue_assignee_name = Inr (JStr ''Ann Lee'')
   \<and> and_then (remap_issue (JObj legacy_record_unassigned)) issue_key = Inr (JStr ''AB-8'')
   \<and> and_then (remap_issue (JObj legacy_record_unassigned)) issue_assignee_name
       = Inr (JStr ''Unassigned'')"
proof -
  have k1: "map_of legacy_record ''key'' = Some (JStr ''AB-7'')" by code_simp
  have s1: "map_of legacy_record ''statusName'' = Some (JStr ''In Progress'')" by code_simp
  have a1: "map_of legacy_record ''assigneeName'' = Some (JStr ''Ann Lee'')" by code_simp
  have k2: "map_of legacy_record_unassigned ''key'' = Some (JStr ''AB-8'')" by code_simp
  have s2: "map_of legacy_record_unassigned ''statusName'' = Some (JStr ''Done'')" by code_simp
  have a2: "map_of legacy_record_unassigned ''assigneeName'' = None" by code_simp
  from a1 have h1: "(Some ''Ann Lee'' = None \<and> (map_of legacy_record ''assigneeName'' = None
        \<or> map_of legacy_record ''assigneeName'' = Some JNull
        \<or> map_of legacy_record ''assigneeName'' = Some (JStr [])))
     \<or> (\<exists>n. Some ''Ann Lee'' = Some n \<and> n \<noteq> [] \<and> map_of legacy_record ''assigneeName'' = Some (JStr n))"
    by simp
  from a2 have h2: "(None = None \<and> (map_of legacy_record_unassigned ''assigneeName'' = None
        \<or> map_of legacy_record_unassigned ''assigneeName'' = Some JNull
        \<or> map_of legacy_record_unassigned ''assigneeName'' = Some (JStr [])))
     \<or> (\<exists>n. None = Some n \<and> n \<noteq> [] \<and> map_of legacy_record_unassigned ''assigneeName'' = Some (JStr n))"
    by simp
  from remap_issue_preserves_key_status_assignee [OF k1 s1 h1, unfolded option.case]
       remap_issue_preserves_key_status_assignee [OF k2 s2 h2, unfolded option.case]
  show ?thesis by blast
qed

section \<open>Properties of board discovery\<close>

lemma append_projects_list:
  "append_projects ps (JArr bs) = Inr (JArr (bs @ map project_board ps))"
  by (induction ps arbitrary: bs) (simp_all add: and_then_def)

lemma get_boards_fallback:
  assumes "agile_boards self srv = Inr (JArr [])"
    and "greenhopper_boards self srv (JArr []) = Inr (JArr [])"
  shows "get_boards self srv = Inr (JArr (map project_board (selected_projects self)))"
  using assms by (simp add: get_boards_def and_then_def append_projects_list)

lemma get_boards_agile:
  assumes "agile_boards self srv = Inr boards" and "truthy boards"
  shows "get_boards self srv = Inr boards"
  using assms by (simp add: get_boards_def and_then_def)

lemma get_boards_greenhopper:
  assumes "agile_boards self srv = Inr (JArr [])"
    and "greenhopper_boards self srv (JArr []) = Inr boards" and "truthy boards"
  shows "get_boards self srv = Inr boards"
  using assms by (simp add: get_boards_def and_then_def)

lemma project_board_reads:
  "board_project_key (project_board p) = Inr (JStr (key p))"
  "dict_get (project_board p) ''id'' JNull = Inr (JStr (''project-'' @ key p))"
  "dict_get (project_board p) ''type'' JNull = Inr (JStr ''project'')"
  by (simp_all add: project_board_def board_project_key_def and_then_def)

lemma agile_boards_failed:
  assumes "failed_reply (srv (base_url self @ ''/rest/agile/1.0/board''))"
  shows "agile_boards self srv = Inr (JArr [])"
  using assms
  by (auto simp: agile_boards_def failed_reply_def response_json_def is_JSONDecodeError_def
      split: option.splits)

lemma greenhopper_boards_failed:
  assumes "failed_reply (srv (base_url self @ ''/rest/greenhopper/1.0/rapidview''))"
  shows "greenhopper_boards self srv boards = Inr boards"
  using assms
  by (auto simp: greenhopper_boards_def failed_reply_def response_json_def is_JSONDecodeError_def
      split: option.splits)

lemma get_boards_backends_failed:
  assumes "failed_reply (srv (base_url self @ ''/rest/agile/1.0/board''))"
    and "failed_reply (srv (base_url self @ ''/rest/greenhopper/1.0/rapidview''))"
  shows "get_boards self srv = Inr (JArr (map project_board (selected_projects self)))"
  using agile_boards_failed [where srv = srv and self = self, OF assms(1)]
    greenhopper_boards_failed [where srv = srv and self = self and boards = "JArr []", OF assms(2)]
  by (rule get_boards_fallback)

text \<open>
  Claim C4. When the first two methods of \<^verbatim>\<open>get_boards\<close> both leave the empty list of
  boards, the result is one project entry for each selected project, in order: its project
  key under \<^verbatim>\<open>location\<close> is the key of the project, its id is "project-" followed by
  the key, and its type is "project"; this is so in particular when both requests fail. When
  the first method yields a non-empty set, or the first yields the empty list and the second
  a non-empty set, that set is the result and no project entry is made.
\<close>

theorem project_boards_only_when_backends_empty:
  "(agile_boards self srv = Inr (JArr []) \<and> greenhopper_boards self srv (JArr []) = Inr (JArr [])
      \<longrightarrow> get_boards self srv = Inr (JArr (map project_board (selected_projects self))))
   \<and> (agile_boards self srv = Inr boards \<and> truthy boards \<longrightarrow> get_boards self srv = Inr boards)
   \<and> (agile_boards self srv = Inr (JArr []) \<and> greenhopper_boards self srv (JArr []) = Inr boards
        \<and> truthy boards \<longrightarrow> get_boards self srv = Inr boards)
   \<and> (failed_reply (srv (base_url self @ ''/rest/agile/1.0/board''))
        \<and> failed_reply (srv (base_url self @ ''/rest/greenhopper/1.0/rapidview''))
        \<longrightarrow> get_boards self srv = Inr (JArr (map project_board (selected_projects self))))
   \<and> length (map project_board (selected_projects self)) = length (selected_projects self)
   \<and> board_project_key (project_board p) = Inr (JStr (key p))
   \<and> dict_get (project_board p) ''id'' JNull = Inr (JStr (''project-'' @ key p))
   \<and> dict_get (project_board p) ''type'' JNull = Inr (JStr ''project'')"
  using get_boards_fallback [of self srv] get_boards_agile [of self srv boards]
    get_boards_greenhopper [of self srv boards] project_board_reads [of p]
    get_boards_backends_failed [of srv self]
  by simp

theorem project_boards_only_when_backends_empty_witness:
  "get_boards one_project no_boards_server
     = Inr (JArr [JObj [(''id'', JStr ''project-AB''), (''name'', JStr ''Alpha (Project View)''),
                        (''type'', JStr ''project''),
                        (''location'', JObj [(''projectKey'', JStr ''AB'')])]])
   \<and> get_boards one_project agile_server = Inr (JArr [JObj [(''id'', JNum 7)]])
   \<and> get_boards one_project rapidview_server
     = Inr (JArr [JObj [(''id'', JNum 3), (''name'', JStr ''Team''), (''type'', JStr ''scrum''),
                        (''location'', JObj [(''projectKey'', JStr ''AB'')])]])
   \<and> get_boards one_project (\<lambda>url. None)
     = Inr (JArr [JObj [(''id'', JStr ''project-AB''), (''name'', JStr ''Alpha (Project View)''),
                        (''type'', JStr ''project''),
                        (''location'', JObj [(''projectKey'', JStr ''AB'')])]])"
proof -
  have a1: "agile_boards one_project no_boards_server = Inr (JArr [])" by code_simp
  have g1: "greenhopper_boards one_project no_boards_server (JArr []) = Inr (JArr [])" by code_simp
  have a2: "agile_boards one_project agile_server = Inr (JArr [JObj [(''id'', JNum 7)]])" by code_simp
  have t2: "truthy (JArr [JObj [(''id'', JNum 7)]])" by simp
  have a3: "agile_boards one_project rapidview_server = Inr (JArr [])" by code_simp
  have g3: "greenhopper_boards one_project rapidview_server (JArr [])
      = Inr (JArr [JObj [(''id'', JNum 3), (''name'', JStr ''Team''), (''type'', JStr ''scrum''),
                        (''location'', JObj [(''projectKey'', JStr ''AB'')])]])" by code_simp
  have t3: "truthy (JArr [JObj [(''id'', JNum 3), (''name'', JStr ''Team''), (''type'', JStr ''scrum''),
                        (''location'', JObj [(''projectKey'', JStr ''AB'')])]])" by simp
  have ps: "map project_board (selected_projects one_project)
      = [JObj [(''id'', JStr ''project-AB''), (''name'', JStr ''Alpha (Project View)''),
                        (''type'', JStr ''project''),
                        (''location'', JObj [(''projectKey'', JStr ''AB'')])]]"
    by (simp add: one_project_def project_board_def)
  from project_boards_only_when_backends_empty [of one_project no_boards_server] a1 g1
  have w1: "get_boards one_project no_boards_server
      = Inr (JArr (map project_board (selected_projects one_project)))" by blast
  from project_boards_only_when_backends_empty [of one_project agile_server
      "JArr [JObj [(''id'', JNum 7)]]"] a2 t2
  have w2: "get_boards one_project agile_server = Inr (JArr [JObj [(''id'', JNum 7)]])" by blast
  from project_boards_only_when_backends_empty [of one_project rapidview_server
      "JArr [JObj [(''id'', JNum 3), (''name'', JStr ''Team''), (''type'', JStr ''scrum''),
                        (''location'', JObj [(''projectKey'', JStr ''AB'')])]]"] a3 g3 t3
  have w3: "get_boards one_project rapidview_server
     = Inr (JArr [JObj [(''id'', JNum 3), (''name'', JStr ''Team''), (''type'', JStr ''scrum''),
                        (''location'', JObj [(''projectKey'', JStr ''AB'')])]])" by blast
  have n: "failed_reply ((\<lambda>url. None) u)" for u :: string
    by (simp add: failed_reply_def)
  from project_boards_only_when_backends_empty [of one_project "\<lambda>url. None"] n
  have w4: "get_boards one_project (\<lambda>url. None)
      = Inr (JArr (map project_board (selected_projects one_project)))" by blast
  from w1 w2 w3 w4 ps show ?thesis by simp
qed

section \<open>Properties of issue discovery\<close>

lemma agile_issues_failed:
  assumes "failed_reply (srv (base_url self @ ''/rest/agile/1.0/board/'' @ board_id @ ''/issue''))"
  shows "agile_issues self srv board_id = Inr None"
  using assms
  by (auto simp: agile_issues_def failed_reply_def response_json_def and_then_def
      is_RequestException_def split: option.splits)

lemma greenhopper_issues_failed:
  assumes "failed_reply (srv (base_url self @
      ''/rest/greenhopper/1.0/xboard/work/allData/?rapidViewId='' @ board_id))"
  shows "greenhopper_issues self srv board_id = Inr None"
  using assms
  by (auto simp: greenhopper_issues_def failed_reply_def response_json_def
      is_RequestException_def split: option.splits)

lemma project_fallback_no_key:
  assumes "no_project_key (get_board_by_id self srv board_id)"
  shows "project_fallback_issues self srv board_id = Inr (JArr [])"
  using assms
  by (auto simp: project_fallback_issues_def no_project_key_def Let_def and_then_def
      split: sum.splits)

lemma get_board_by_id_failed:
  assumes "failed_reply (srv (base_url self @ ''/rest/agile/1.0/board/'' @ board_id))"
    and "failed_reply (srv (base_url self @ ''/rest/greenhopper/1.0/rapidview/'' @ board_id))"
  shows "get_board_by_id self srv board_id = JNull"
  using assms
  by (auto simp: get_board_by_id_def failed_reply_def response_json_def and_then_def
      split: option.splits)

lemma issues_result_failed:
  "failed_reply (Some r) \<Longrightarrow> issues_result r = Inr (JArr [])"
  by (auto simp: issues_result_def failed_reply_def response_json_def and_then_def
      is_RequestException_def)

lemma get_project_issues_failed:
  assumes "failed_reply (srv (base_url self @ ''/rest/api/3/search''))"
    and "failed_reply (srv (base_url self @ ''/rest/api/2/search''))"
  shows "fst (get_project_issues self srv project_key) = Inr (JArr [])"
  using assms
  by (auto simp: get_project_issues_def Let_def issues_result_failed split: option.splits)

lemma project_fallback_search_failed:
  assumes "board_project_key (get_board_by_id self srv board_id) = Inr project_key"
    and "failed_reply (srv (base_url self @ ''/rest/api/3/search''))"
    and "failed_reply (srv (base_url self @ ''/rest/api/2/search''))"
  shows "project_fallback_issues self srv board_id = Inr (JArr [])"
  using assms(1) get_project_issues_failed [OF assms(2,3)]
  by (simp add: project_fallback_issues_def Let_def and_then_def)

text \<open>
  Claim C5. For every board id: if the board-issues request of the agile API and the one of
  the board work data both fail (no response, a status other than 200, or a body that is not
  JSON), and the last method fails too (the board has no resolvable project key, or the board
  lookup fails at both of its endpoints, or the project search fails at both of its
  endpoints), then \<^verbatim>\<open>get_board_issues\<close> returns the empty list and no exception leaves it.
\<close>

theorem exhausted_tiers_give_no_issues:
  assumes "failed_reply (srv (base_url self @ ''/rest/agile/1.0/board/'' @ board_id @ ''/issue''))"
    and "failed_reply (srv (base_url self @
           ''/rest/greenhopper/1.0/xboard/work/allData/?rapidViewId='' @ board_id))"
    and "no_project_key (get_board_by_id self srv board_id)
       \<or> (failed_reply (srv (base_url self @ ''/rest/agile/1.0/board/'' @ board_id))
          \<and> failed_reply (srv (base_url self @ ''/rest/greenhopper/1.0/rapidview/'' @ board_id)))
       \<or> ((\<exists>project_key. board_project_key (get_board_by_id self srv board_id) = Inr project_key)
          \<and> failed_reply (srv (base_url self @ ''/rest/api/3/search''))
          \<and> failed_reply (srv (base_url self @ ''/rest/api/2/search'')))"
  shows "get_board_issues self srv board_id = Inr (JArr [])"
proof -
  have "project_fallback_issues self srv board_id = Inr (JArr [])"
    using assms(3)
  proof (elim disjE conjE exE)
    assume "no_project_key (get_board_by_id self srv board_id)"
    then show ?thesis by (rule project_fallback_no_key)
  next
    assume "failed_reply (srv (base_url self @ ''/rest/agile/1.0/board/'' @ board_id))"
      and "failed_reply (srv (base_url self @ ''/rest/greenhopper/1.0/rapidview/'' @ board_id))"
    then have "get_board_by_id self srv board_id = JNull"
      by (rule get_board_by_id_failed)
    then have "no_project_key (get_board_by_id self srv board_id)"
      by (simp add: no_project_key_def)
    then show ?thesis by (rule project_fallback_no_key)
  next
    fix project_key
    assume "board_project_key (get_board_by_id self srv board_id) = Inr project_key"
      and "failed_reply (srv (base_url self @ ''/rest/api/3/search''))"
      and "failed_reply (srv (base_url self @ ''/rest/api/2/search''))"
    then show ?thesis by (rule project_fallback_search_failed)
  qed
  with agile_issues_failed [where srv = srv and self = self and board_id = board_id, OF assms(1)]
    greenhopper_issues_failed [where srv = srv and self = self and board_id = board_id, OF assms(2)]
  show ?thesis by (simp add: get_board_issues_def and_then_def)
qed

theorem exhausted_tiers_give_no_issues_witness:
  "get_board_issues one_project failing_server ''7'' = Inr (JArr [])
   \<and> get_board_issues one_project (\<lambda>url. None) ''7'' = Inr (JArr [])
   \<and> get_board_issues one_project search_down_server ''7'' = Inr (JArr [])"
proof -
  have h1: "failed_reply (failing_server (base_url one_project @ ''/rest/agile/1.0/board/'' @ ''7'' @ ''/issue''))"
    by code_simp
  have h2: "failed_reply (failing_server (base_url one_project @
           ''/rest/greenhopper/1.0/xboard/work/allData/?rapidViewId='' @ ''7''))"
    by code_simp
  have h3: "no_project_key (get_board_by_id one_project failing_server ''7'')"
    by code_simp
  have n: "failed_reply ((\<lambda>url. None) u)" for u :: string
    by (simp add: failed_reply_def)
  have d1: "failed_reply (search_down_server (base_url one_project @ ''/rest/agile/1.0/board/'' @ ''7'' @ ''/issue''))"
    by code_simp
  have d2: "failed_reply (search_down_server (base_url one_project @
           ''/rest/greenhopper/1.0/xboard/work/allData/?rapidViewId='' @ ''7''))"
    by code_simp
  have d3: "board_project_key (get_board_by_id one_project search_down_server ''7'') = Inr (JStr ''AB'')"
    by code_simp
  have d4: "failed_reply (search_down_server (base_url one_project @ ''/rest/api/3/search''))"
    by code_simp
  have d5: "failed_reply (search_down_server (base_url one_project @ ''/rest/api/2/search''))"
    by code_simp
  from exhausted_tiers_give_no_issues [of failing_server one_project "''7''", OF h1 h2] h3
    exhausted_tiers_give_no_issues [of "\<lambda>url. None" one_project "''7''", OF n n] n
    exhausted_tiers_give_no_issues [of search_down_server one_project "''7''", OF d1 d2] d3 d4 d5
  show ?thesis by blast
qed

text \<open>
  The three failures above are the ones the methods catch. A reply with status 200 whose JSON
  is not an object is none of them: \<^verbatim>\<open>get\<close> is called on it and the
  \<^verbatim>\<open>AttributeError\<close> leaves \<^verbatim>\<open>get_board_issues\<close>.
\<close>

lemma unexpected_shape_raises:
  "get_board_issues one_project array_body_server ''7'' = Inl AttributeError"
  by (simp add: get_board_issues_def agile_issues_def array_body_server_def reply_def
      response_json_def and_then_def is_RequestException_def)

section \<open>Properties of the version negotiator\<close>










end
